theory Spec2Isabelle
  imports Complex_Main
begin

section \<open>FinSight: amortization tables and extraordinary payments\<close>

text \<open>
  A shallow embedding of \<^verbatim>\<open>backend/calculos.py\<close>, \<^verbatim>\<open>backend/abonos.py\<close> and
  \<^verbatim>\<open>avance 1/tasas.py\<close>.

  Numbers. The Python code computes with binary floating point; the embedding computes
  with exact real numbers. Every statement below is therefore about the arithmetic the
  code denotes, free of rounding drift: the literal \<^verbatim>\<open>0.01\<close> is the real \<open>1/100\<close>,
  \<^verbatim>\<open>/\<close> is real division and raises \<^verbatim>\<open>ZeroDivisionError\<close> on a zero divisor, and
  \<^verbatim>\<open>**\<close> is the real power. Overflow of floats is not modelled.

  Dates. \<^verbatim>\<open>fecha_inicio\<close> is taken as already parsed: a date is its day number
  (the proleptic ordinal of \<^verbatim>\<open>datetime\<close>), \<^verbatim>\<open>timedelta(days=k)\<close> adds \<open>k\<close>, and the
  \<^verbatim>\<open>strptime\<close>/\<^verbatim>\<open>strftime\<close> conversions between the ordinal and its ISO text are
  outside the model.

  Tables. A \<^verbatim>\<open>pandas.DataFrame\<close> built from a list of row dictionaries is the list of
  its rows.
\<close>

subsection \<open>Errors and Python arithmetic\<close>

datatype py_error = ZeroDivisionError | KeyError | ComplexResult

text \<open>Sequencing of computations that may raise.\<close>

definition bind_res :: "py_error + 'a \<Rightarrow> ('a \<Rightarrow> py_error + 'b) \<Rightarrow> py_error + 'b" where
  "bind_res x f = (case x of Inl e \<Rightarrow> Inl e | Inr v \<Rightarrow> f v)"

text \<open>\<^verbatim>\<open>a / b\<close> on numbers.\<close>

definition py_div :: "real \<Rightarrow> real \<Rightarrow> py_error + real" where
  "py_div a b = (if b = 0 then Inl ZeroDivisionError else Inr (a / b))"

text \<open>\<^verbatim>\<open>int(x)\<close> on a float: truncation towards zero.\<close>

definition py_int :: "real \<Rightarrow> int" where
  "py_int x = (if 0 \<le> x then \<lfloor>x\<rfloor> else \<lceil>x\<rceil>)"

text \<open>
  \<^verbatim>\<open>base ** n\<close> with an \<^verbatim>\<open>int\<close> exponent: zero to a negative power raises.
\<close>

definition py_pow_int :: "real \<Rightarrow> int \<Rightarrow> py_error + real" where
  "py_pow_int base n =
     (if base = 0 \<and> n < 0 then Inl ZeroDivisionError else Inr (base powi n))"

text \<open>
  \<^verbatim>\<open>base ** e\<close> with a \<^verbatim>\<open>float\<close> exponent. Anything to the power \<open>0\<close> is \<open>1\<close>; zero
  to a negative power raises; a negative base with an integral exponent is an ordinary
  power. A negative base with a fractional exponent makes Python return a
  \<^verbatim>\<open>complex\<close>, which no later step of this program can round or compare: the model
  reports it at once as \<open>ComplexResult\<close>.
\<close>

definition py_pow_real :: "real \<Rightarrow> real \<Rightarrow> py_error + real" where
  "py_pow_real base e =
     (if e = 0 then Inr 1
      else if base = 0 then (if e < 0 then Inl ZeroDivisionError else Inr 0)
      else if 0 < base then Inr (base powr e)
      else if e = of_int \<lfloor>e\<rfloor> then Inr (base powi \<lfloor>e\<rfloor>)
      else Inl ComplexResult)"

subsection \<open>calculos.py: frequency tables and rate conversions\<close>

text \<open>The dictionary \<^verbatim>\<open>FRECUENCIAS\<close>: months per period.\<close>

definition FRECUENCIAS :: "string \<rightharpoonup> real" where
  "FRECUENCIAS = map_of
     [(''diaria'', 1 / 30), (''quincenal'', 1 / 2), (''mensual'', 1), (''bimestral'', 2),
      (''trimestral'', 3), (''cuatrimestral'', 4), (''semestral'', 6), (''anual'', 12)]"

text \<open>The dictionary \<^verbatim>\<open>FRECUENCIAS_DIAS\<close>: days per period.\<close>

definition FRECUENCIAS_DIAS :: "string \<rightharpoonup> real" where
  "FRECUENCIAS_DIAS = map_of
     [(''diaria'', 1), (''quincenal'', 15), (''mensual'', 30), (''bimestral'', 60),
      (''trimestral'', 90), (''cuatrimestral'', 120), (''semestral'', 180), (''anual'', 365)]"

text \<open>\<^verbatim>\<open>d[k]\<close>: a missing key raises \<^verbatim>\<open>KeyError\<close>.\<close>

definition lookup_key :: "('k \<rightharpoonup> 'v) \<Rightarrow> 'k \<Rightarrow> py_error + 'v" where
  "lookup_key d k = (case d k of None \<Rightarrow> Inl KeyError | Some v \<Rightarrow> Inr v)"

definition convertir_nominal_a_efectiva :: "real \<Rightarrow> int \<Rightarrow> py_error + real" where
  "convertir_nominal_a_efectiva tasa_nominal m =
     bind_res (py_div tasa_nominal (of_int m)) (\<lambda>q.
     bind_res (py_pow_int (1 + q) m) (\<lambda>p. Inr (p - 1)))"

definition convertir_anticipada_a_vencida :: "real \<Rightarrow> py_error + real" where
  "convertir_anticipada_a_vencida tasa_anticipada =
     py_div tasa_anticipada (1 + tasa_anticipada)"

definition convertir_tasa_a_frecuencia_pago :: "real \<Rightarrow> string \<Rightarrow> string \<Rightarrow> py_error + real" where
  "convertir_tasa_a_frecuencia_pago tasa frecuencia_origen frecuencia_destino =
     bind_res (lookup_key FRECUENCIAS_DIAS frecuencia_origen) (\<lambda>dias_origen.
     bind_res (lookup_key FRECUENCIAS_DIAS frecuencia_destino) (\<lambda>dias_destino.
     bind_res (py_div 1 dias_origen) (\<lambda>e.
     bind_res (py_pow_real (1 + tasa) e) (\<lambda>p.
     let tasa_diaria = p - 1 in
     bind_res (py_pow_real (1 + tasa_diaria) dias_destino) (\<lambda>p'. Inr (p' - 1))))))"

definition convertir_tasa_efectiva :: "real \<Rightarrow> string \<Rightarrow> string \<Rightarrow> py_error + real" where
  "convertir_tasa_efectiva tasa frecuencia_origen frecuencia_destino =
     bind_res (lookup_key FRECUENCIAS frecuencia_origen) (\<lambda>meses_origen.
     bind_res (lookup_key FRECUENCIAS frecuencia_destino) (\<lambda>meses_destino.
     bind_res (py_div meses_destino meses_origen) (\<lambda>e.
     bind_res (py_pow_real (1 + tasa) e) (\<lambda>p. Inr (p - 1)))))"

subsection \<open>calculos.py: the fixed installment and rounding\<close>

text \<open>
  \<^verbatim>\<open>calcular_cuota_frances\<close>. There is no check of \<^verbatim>\<open>n_periodos\<close>: the only failures
  are the divisions (and a zero base raised to a negative power).
\<close>

definition calcular_cuota_frances :: "real \<Rightarrow> real \<Rightarrow> int \<Rightarrow> py_error + real" where
  "calcular_cuota_frances principal' tasa_periodo n_periodos =
     (if tasa_periodo = 0 then py_div principal' (of_int n_periodos)
      else
        bind_res (py_pow_int (1 + tasa_periodo) n_periodos) (\<lambda>p.
        py_div (principal' * (tasa_periodo * p)) (p - 1)))"

text \<open>
  \<^verbatim>\<open>redondear_decimal\<close>: \<^verbatim>\<open>Decimal.quantize\<close> to \<open>decimales\<close> places with
  \<^verbatim>\<open>ROUND_HALF_UP\<close>, which rounds ties away from zero.
\<close>

definition redondear_decimal :: "real \<Rightarrow> int \<Rightarrow> real" where
  "redondear_decimal valor decimales =
     (let factor = 10 powi decimales in
      if 0 \<le> valor then of_int \<lfloor>valor * factor + 1 / 2\<rfloor> / factor
      else - (of_int \<lfloor>- valor * factor + 1 / 2\<rfloor> / factor))"

text \<open>The default \<^verbatim>\<open>decimales=2\<close>, used at every call site.\<close>

definition redondear :: "real \<Rightarrow> real" where
  "redondear valor = redondear_decimal valor 2"

subsection \<open>Schedule rows\<close>

record fila =
  Periodo :: int
  Fecha :: int
  Cuota :: real
  Interes :: real
  Abono_Capital :: real
  Abono_Extra :: real
  Saldo :: real

subsection \<open>calculos.py: the baseline schedule\<close>

text \<open>
  The \<^verbatim>\<open>for periodo in range(1, n_periodos + 1)\<close> loop of
  \<^verbatim>\<open>generar_tabla_amortizacion\<close>, from \<open>periodo\<close> on, with the loop variables
  \<open>saldo\<close> and \<open>fecha_actual\<close>.
\<close>

function bucle_tabla ::
  "real \<Rightarrow> real \<Rightarrow> int \<Rightarrow> real \<Rightarrow> real \<Rightarrow> int \<Rightarrow> int \<Rightarrow> fila list" where
  "bucle_tabla cuota tasa_periodo n_periodos meses_por_periodo saldo fecha_actual periodo =
     (if periodo \<le> n_periodos then
        (let interes = saldo * tasa_periodo;
             abono_capital = cuota - interes;
             saldo1 = saldo - abono_capital;
             saldo2 = (if periodo = n_periodos \<and> \<bar>saldo1\<bar> < 1 / 100 then 0 else saldo1);
             dias_a_sumar = py_int (meses_por_periodo * 30);
             fecha_pago = fecha_actual + dias_a_sumar;
             row = \<lparr>Periodo = periodo, Fecha = fecha_pago, Cuota = redondear cuota,
                    Interes = redondear interes, Abono_Capital = redondear abono_capital,
                    Abono_Extra = 0, Saldo = redondear (max 0 saldo2)\<rparr>
         in if saldo2 \<le> 0 then [row]
            else row # bucle_tabla cuota tasa_periodo n_periodos meses_por_periodo
                         saldo2 fecha_pago (periodo + 1))
      else [])"
  by pat_completeness auto
termination
  by (relation "measure (\<lambda>(cuota, tasa_periodo, n_periodos, meses_por_periodo, saldo,
        fecha_actual, periodo). nat (n_periodos + 1 - periodo))") auto

text \<open>The dictionary \<^verbatim>\<open>m_map\<close> with \<^verbatim>\<open>m_map.get(frecuencia_tasa, 12)\<close>.\<close>

definition m_map :: "string \<rightharpoonup> int" where
  "m_map = map_of [(''mensual'', 12), (''trimestral'', 4), (''semestral'', 2), (''anual'', 1)]"

definition m_de_frecuencia :: "string \<Rightarrow> int" where
  "m_de_frecuencia frecuencia_tasa = (case m_map frecuencia_tasa of None \<Rightarrow> 12 | Some m \<Rightarrow> m)"

text \<open>
  Steps 1 to 3 of \<^verbatim>\<open>generar_tabla_amortizacion\<close>: the rate of one payment period.
  Both branches of step 3 call \<^verbatim>\<open>convertir_tasa_efectiva\<close> with the quotation
  frequency as the origin.
\<close>

definition tasa_periodo_de :: "real \<Rightarrow> string \<Rightarrow> string \<Rightarrow> string \<Rightarrow> string \<Rightarrow> py_error + real" where
  "tasa_periodo_de tasa tipo_tasa tipo_pago frecuencia_pago frecuencia_tasa =
     (let tasa_decimal = tasa / 100 in
      bind_res (if tipo_tasa = ''nominal''
                then convertir_nominal_a_efectiva tasa_decimal (m_de_frecuencia frecuencia_tasa)
                else Inr tasa_decimal) (\<lambda>tasa_efectiva_anual.
      bind_res (if tipo_pago = ''anticipada''
                then convertir_anticipada_a_vencida tasa_efectiva_anual
                else Inr tasa_efectiva_anual) (\<lambda>tasa_efectiva_anual.
      if frecuencia_tasa = ''anual''
      then convertir_tasa_efectiva tasa_efectiva_anual ''anual'' frecuencia_pago
      else convertir_tasa_efectiva tasa_efectiva_anual frecuencia_tasa frecuencia_pago)))"

definition generar_tabla_amortizacion ::
  "real \<Rightarrow> real \<Rightarrow> string \<Rightarrow> string \<Rightarrow> int \<Rightarrow> string \<Rightarrow> int \<Rightarrow> string \<Rightarrow> py_error + fila list" where
  "generar_tabla_amortizacion monto tasa tipo_tasa tipo_pago plazo_meses frecuencia_pago
       fecha_inicio frecuencia_tasa =
     bind_res (tasa_periodo_de tasa tipo_tasa tipo_pago frecuencia_pago frecuencia_tasa)
       (\<lambda>tasa_periodo.
     bind_res (lookup_key FRECUENCIAS frecuencia_pago) (\<lambda>meses_por_periodo.
     bind_res (py_div (of_int plazo_meses) meses_por_periodo) (\<lambda>q.
     let n_periodos = py_int q in
     bind_res (calcular_cuota_frances monto tasa_periodo n_periodos) (\<lambda>cuota.
     Inr (bucle_tabla cuota tasa_periodo n_periodos meses_por_periodo monto fecha_inicio 1)))))"

subsection \<open>abonos.py: replaying a schedule with extraordinary payments\<close>

text \<open>An entry \<^verbatim>\<open>{"periodo": int, "monto": float}\<close> of the list \<^verbatim>\<open>abonos\<close>.\<close>

record abono =
  abono_periodo :: int
  abono_monto :: real

text \<open>
  \<^verbatim>\<open>{a["periodo"]: a["monto"] for a in abonos}\<close>: a later entry for the same period
  replaces an earlier one.
\<close>

definition abonos_dict :: "abono list \<Rightarrow> (int \<rightharpoonup> real)" where
  "abonos_dict abonos = foldl (\<lambda>d a. d(abono_periodo a \<mapsto> abono_monto a)) Map.empty abonos"

text \<open>\<^verbatim>\<open>d.get(k, 0.0)\<close>.\<close>

definition get_abono :: "(int \<rightharpoonup> real) \<Rightarrow> int \<Rightarrow> real" where
  "get_abono d k = (case d k of None \<Rightarrow> 0 | Some v \<Rightarrow> v)"

text \<open>
  The \<^verbatim>\<open>while\<close> loop of \<^verbatim>\<open>aplicar_abonos_reducir_cuota\<close>, with the loop variables
  \<open>saldo\<close>, \<open>cuota\<close>, \<open>fecha_actual\<close> and \<open>periodo\<close>. The recomputation of the
  installment may raise, which discards the rows built so far.
\<close>

function bucle_reducir_cuota ::
  "real \<Rightarrow> int \<Rightarrow> (int \<rightharpoonup> real) \<Rightarrow> real \<Rightarrow> real \<Rightarrow> real \<Rightarrow> int \<Rightarrow> int \<Rightarrow> py_error + fila list" where
  "bucle_reducir_cuota tasa_periodo n_periodos_inicial d meses_por_periodo
       saldo cuota fecha_actual periodo =
     (if 1 / 100 < saldo \<and> periodo \<le> n_periodos_inicial * 2 then
        (let interes = saldo * tasa_periodo;
             abono_capital = cuota - interes;
             abono_extra = get_abono d periodo;
             saldo1 = saldo - abono_capital - abono_extra;
             abono_capital' = (if saldo1 < 0 then abono_capital + saldo1 else abono_capital);
             saldo2 = (if saldo1 < 0 then 0 else saldo1);
             dias_a_sumar = py_int (meses_por_periodo * 30);
             fecha_pago = fecha_actual + dias_a_sumar;
             row = \<lparr>Periodo = periodo, Fecha = fecha_pago, Cuota = redondear cuota,
                    Interes = redondear interes, Abono_Capital = redondear abono_capital',
                    Abono_Extra = redondear abono_extra, Saldo = redondear (max 0 saldo2)\<rparr>;
             periodos_restantes = n_periodos_inicial - periodo
         in bind_res
              (if 0 < abono_extra \<and> 1 / 100 < saldo2 \<and> 0 < periodos_restantes
               then calcular_cuota_frances saldo2 tasa_periodo periodos_restantes
               else Inr cuota) (\<lambda>cuota'.
            if saldo2 \<le> 1 / 100 then Inr [row]
            else bind_res
                   (bucle_reducir_cuota tasa_periodo n_periodos_inicial d meses_por_periodo
                      saldo2 cuota' fecha_pago (periodo + 1))
                   (\<lambda>rows. Inr (row # rows))))
      else Inr [])"
  by pat_completeness auto
termination
  by (relation "measure (\<lambda>(tasa_periodo, n_periodos_inicial, d, meses_por_periodo, saldo,
        cuota, fecha_actual, periodo). nat (n_periodos_inicial * 2 + 1 - periodo))") auto

definition aplicar_abonos_reducir_cuota ::
  "real \<Rightarrow> real \<Rightarrow> int \<Rightarrow> abono list \<Rightarrow> int \<Rightarrow> string \<Rightarrow> py_error + fila list" where
  "aplicar_abonos_reducir_cuota saldo_inicial tasa_periodo n_periodos_inicial abonos
       fecha_inicio frecuencia_pago =
     bind_res (calcular_cuota_frances saldo_inicial tasa_periodo n_periodos_inicial) (\<lambda>cuota.
     bind_res (lookup_key FRECUENCIAS frecuencia_pago) (\<lambda>meses_por_periodo.
     bucle_reducir_cuota tasa_periodo n_periodos_inicial (abonos_dict abonos)
       meses_por_periodo saldo_inicial cuota fecha_inicio 1))"

text \<open>
  The \<^verbatim>\<open>while\<close> loop of \<^verbatim>\<open>aplicar_abonos_reducir_plazo\<close>: the same body without the
  recomputation, so nothing in it can raise.
\<close>

function bucle_reducir_plazo ::
  "real \<Rightarrow> int \<Rightarrow> (int \<rightharpoonup> real) \<Rightarrow> real \<Rightarrow> real \<Rightarrow> real \<Rightarrow> int \<Rightarrow> int \<Rightarrow> fila list" where
  "bucle_reducir_plazo tasa_periodo n_periodos_inicial d meses_por_periodo
       saldo cuota fecha_actual periodo =
     (if 1 / 100 < saldo \<and> periodo \<le> n_periodos_inicial * 2 then
        (let interes = saldo * tasa_periodo;
             abono_capital = cuota - interes;
             abono_extra = get_abono d periodo;
             saldo1 = saldo - abono_capital - abono_extra;
             abono_capital' = (if saldo1 < 0 then abono_capital + saldo1 else abono_capital);
             saldo2 = (if saldo1 < 0 then 0 else saldo1);
             dias_a_sumar = py_int (meses_por_periodo * 30);
             fecha_pago = fecha_actual + dias_a_sumar;
             row = \<lparr>Periodo = periodo, Fecha = fecha_pago, Cuota = redondear cuota,
                    Interes = redondear interes, Abono_Capital = redondear abono_capital',
                    Abono_Extra = redondear abono_extra, Saldo = redondear (max 0 saldo2)\<rparr>
         in if saldo2 \<le> 1 / 100 then [row]
            else row # bucle_reducir_plazo tasa_periodo n_periodos_inicial d meses_por_periodo
                         saldo2 cuota fecha_pago (periodo + 1))
      else [])"
  by pat_completeness auto
termination
  by (relation "measure (\<lambda>(tasa_periodo, n_periodos_inicial, d, meses_por_periodo, saldo,
        cuota, fecha_actual, periodo). nat (n_periodos_inicial * 2 + 1 - periodo))") auto

definition aplicar_abonos_reducir_plazo ::
  "real \<Rightarrow> real \<Rightarrow> int \<Rightarrow> abono list \<Rightarrow> int \<Rightarrow> string \<Rightarrow> py_error + fila list" where
  "aplicar_abonos_reducir_plazo saldo_inicial tasa_periodo n_periodos_inicial abonos
       fecha_inicio frecuencia_pago =
     bind_res (calcular_cuota_frances saldo_inicial tasa_periodo n_periodos_inicial) (\<lambda>cuota.
     bind_res (lookup_key FRECUENCIAS frecuencia_pago) (\<lambda>meses_por_periodo.
     Inr (bucle_reducir_plazo tasa_periodo n_periodos_inicial (abonos_dict abonos)
            meses_por_periodo saldo_inicial cuota fecha_inicio 1)))"

subsection \<open>abonos.py: the savings comparison\<close>




subsection \<open>tasas.py: the class TasaInteres\<close>

definition TasaInteres_anticipada_a_vencida :: "real \<Rightarrow> py_error + real" where
  "TasaInteres_anticipada_a_vencida tasa_anticipada =
     py_div tasa_anticipada (1 - tasa_anticipada)"

definition TasaInteres_vencida_a_anticipada :: "real \<Rightarrow> py_error + real" where
  "TasaInteres_vencida_a_anticipada tasa_vencida =
     py_div tasa_vencida (1 + tasa_vencida)"


section \<open>Auxiliary notions for the proofs\<close>

text \<open>
  One iteration of the two \<^verbatim>\<open>while\<close> loops of \<^verbatim>\<open>abonos.py\<close>, named piece by piece:
  the balance after the iteration, the row it emits, and the installment that
  \<^verbatim>\<open>aplicar_abonos_reducir_cuota\<close> carries into the next iteration.
\<close>

definition saldo_abono :: "real \<Rightarrow> (int \<rightharpoonup> real) \<Rightarrow> real \<Rightarrow> real \<Rightarrow> int \<Rightarrow> real" where
  "saldo_abono r d saldo cuota p =
     (if saldo - (cuota - saldo * r) - get_abono d p < 0 then 0
      else saldo - (cuota - saldo * r) - get_abono d p)"

definition fila_abono :: "real \<Rightarrow> (int \<rightharpoonup> real) \<Rightarrow> real \<Rightarrow> real \<Rightarrow> real \<Rightarrow> int \<Rightarrow> int \<Rightarrow> fila" where
  "fila_abono r d m saldo cuota fecha p =
     \<lparr>Periodo = p, Fecha = fecha + py_int (m * 30), Cuota = redondear cuota,
      Interes = redondear (saldo * r),
      Abono_Capital =
        redondear (if saldo - (cuota - saldo * r) - get_abono d p < 0
                   then cuota - saldo * r + (saldo - (cuota - saldo * r) - get_abono d p)
                   else cuota - saldo * r),
      Abono_Extra = redondear (get_abono d p),
      Saldo = redondear (max 0 (saldo_abono r d saldo cuota p))\<rparr>"

definition cuota_abono :: "real \<Rightarrow> int \<Rightarrow> (int \<rightharpoonup> real) \<Rightarrow> real \<Rightarrow> real \<Rightarrow> int \<Rightarrow> py_error + real" where
  "cuota_abono r n d saldo cuota p =
     (if 0 < get_abono d p \<and> 1 / 100 < saldo_abono r d saldo cuota p \<and> 0 < n - p
      then calcular_cuota_frances (saldo_abono r d saldo cuota p) r (n - p)
      else Inr cuota)"

text \<open>The same for one iteration of the \<^verbatim>\<open>for\<close> loop of the baseline schedule.\<close>

definition saldo_tabla :: "real \<Rightarrow> real \<Rightarrow> int \<Rightarrow> real \<Rightarrow> int \<Rightarrow> real" where
  "saldo_tabla cuota r n saldo p =
     (if p = n \<and> \<bar>saldo - (cuota - saldo * r)\<bar> < 1 / 100 then 0
      else saldo - (cuota - saldo * r))"

definition fila_tabla :: "real \<Rightarrow> real \<Rightarrow> int \<Rightarrow> real \<Rightarrow> real \<Rightarrow> int \<Rightarrow> int \<Rightarrow> fila" where
  "fila_tabla cuota r n m saldo fecha p =
     \<lparr>Periodo = p, Fecha = fecha + py_int (m * 30), Cuota = redondear cuota,
      Interes = redondear (saldo * r), Abono_Capital = redondear (cuota - saldo * r),
      Abono_Extra = 0, Saldo = redondear (max 0 (saldo_tabla cuota r n saldo p))\<rparr>"

text \<open>
  The value, in installments, of \<open>k\<close> installments still to be paid at period rate
  \<open>r\<close>: \<open>1/(1+r) + \<dots> + 1/(1+r)^k\<close>. A balance of \<open>c * anualidad r k\<close> is exactly
  what \<open>k\<close> installments of \<open>c\<close> pay off.
\<close>

fun anualidad :: "real \<Rightarrow> nat \<Rightarrow> real" where
  "anualidad r 0 = 0"
| "anualidad r (Suc k) = (1 + anualidad r k) / (1 + r)"

section \<open>Unfolding the loops\<close>

declare bucle_tabla.simps [simp del]
declare bucle_reducir_cuota.simps [simp del]
declare bucle_reducir_plazo.simps [simp del]

lemma bind_res_Inr_iff: "bind_res x f = Inr y \<longleftrightarrow> (\<exists>v. x = Inr v \<and> f v = Inr y)"
  by (cases x) (simp_all add: bind_res_def)

lemma bind_res_Inr [simp]: "bind_res (Inr v) f = f v"
  by (simp add: bind_res_def)

lemma bind_res_Inl [simp]: "bind_res (Inl e) f = Inl e"
  by (simp add: bind_res_def)

lemma bucle_tabla_stop:
  "\<not> p \<le> n \<Longrightarrow> bucle_tabla cuota r n m saldo fecha p = []"
  by (subst bucle_tabla.simps) (simp only: if_False)

lemma bucle_tabla_step:
  assumes "p \<le> n"
  shows "bucle_tabla cuota r n m saldo fecha p =
         (if saldo_tabla cuota r n saldo p \<le> 0 then [fila_tabla cuota r n m saldo fecha p]
          else fila_tabla cuota r n m saldo fecha p #
               bucle_tabla cuota r n m (saldo_tabla cuota r n saldo p)
                 (fecha + py_int (m * 30)) (p + 1))"
  using assms
  by (subst bucle_tabla.simps)
     (simp only: Let_def fila_tabla_def saldo_tabla_def simp_thms if_True)

lemma bucle_reducir_plazo_stop:
  "\<not> (1 / 100 < saldo \<and> p \<le> n * 2) \<Longrightarrow>
   bucle_reducir_plazo r n d m saldo cuota fecha p = []"
  by (subst bucle_reducir_plazo.simps) (simp only: if_False)

lemma bucle_reducir_plazo_step:
  assumes "1 / 100 < saldo" "p \<le> n * 2"
  shows "bucle_reducir_plazo r n d m saldo cuota fecha p =
         (if saldo_abono r d saldo cuota p \<le> 1 / 100 then [fila_abono r d m saldo cuota fecha p]
          else fila_abono r d m saldo cuota fecha p #
               bucle_reducir_plazo r n d m (saldo_abono r d saldo cuota p) cuota
                 (fecha + py_int (m * 30)) (p + 1))"
  using assms
  by (subst bucle_reducir_plazo.simps)
     (simp only: Let_def fila_abono_def saldo_abono_def simp_thms if_True)

lemma bucle_reducir_cuota_stop:
  "\<not> (1 / 100 < saldo \<and> p \<le> n * 2) \<Longrightarrow>
   bucle_reducir_cuota r n d m saldo cuota fecha p = Inr []"
  by (subst bucle_reducir_cuota.simps) (simp only: if_False)

lemma bucle_reducir_cuota_step:
  assumes "1 / 100 < saldo" "p \<le> n * 2"
  shows "bucle_reducir_cuota r n d m saldo cuota fecha p =
         bind_res (cuota_abono r n d saldo cuota p) (\<lambda>cuota'.
           if saldo_abono r d saldo cuota p \<le> 1 / 100
           then Inr [fila_abono r d m saldo cuota fecha p]
           else bind_res
                  (bucle_reducir_cuota r n d m (saldo_abono r d saldo cuota p) cuota'
                     (fecha + py_int (m * 30)) (p + 1))
                  (\<lambda>rows. Inr (fila_abono r d m saldo cuota fecha p # rows)))"
  using assms
  by (subst bucle_reducir_cuota.simps)
     (simp only: Let_def fila_abono_def saldo_abono_def cuota_abono_def simp_thms if_True)

text \<open>Induction over the period counter, which runs up to a bound \<open>N\<close>.\<close>

lemma periodo_induct [case_names paso]:
  fixes Q :: "int \<Rightarrow> bool" and N :: int
  assumes "\<And>p. (p \<le> N \<Longrightarrow> Q (p + 1)) \<Longrightarrow> Q p"
  shows "Q p"
proof (induction "nat (N + 1 - p)" arbitrary: p)
  case 0
  then have np: "\<not> p \<le> N" by simp
  show ?case
  proof (rule assms)
    assume "p \<le> N"
    with np show "Q (p + 1)" by simp
  qed
next
  case (Suc k)
  show ?case
  proof (rule assms)
    assume "p \<le> N"
    with Suc.hyps(2) have "k = nat (N + 1 - (p + 1))" by simp
    then show "Q (p + 1)" by (rule Suc.hyps(1))
  qed
qed

text \<open>Rules that evaluate the model on concrete inputs.\<close>

named_theorems evalua

lemmas [evalua] =
  py_div_def py_int_def py_pow_int_def py_pow_real_def power_int_def lookup_key_def
  FRECUENCIAS_def m_map_def m_de_frecuencia_def
  convertir_nominal_a_efectiva_def convertir_anticipada_a_vencida_def
  convertir_tasa_efectiva_def calcular_cuota_frances_def
  redondear_def redondear_decimal_def tasa_periodo_de_def generar_tabla_amortizacion_def
  abonos_dict_def get_abono_def aplicar_abonos_reducir_cuota_def
  aplicar_abonos_reducir_plazo_def
  saldo_abono_def fila_abono_def cuota_abono_def saldo_tabla_def fila_tabla_def
  bucle_tabla_stop bucle_tabla_step bucle_reducir_plazo_stop bucle_reducir_plazo_step
  bucle_reducir_cuota_stop bucle_reducir_cuota_step Let_def power_divide

section \<open>The fixed installment\<close>

text \<open>
  C8 (as amended). With \<^verbatim>\<open>n_periodos = 0\<close> the installment computation raises
  \<^verbatim>\<open>ZeroDivisionError\<close>, whatever the principal and the period rate: with a zero rate
  it divides the principal by \<open>0\<close>, otherwise the denominator \<open>(1 + r)^0 - 1\<close> is \<open>0\<close>.
\<close>

theorem calcular_cuota_frances_cero_periodos:
  "calcular_cuota_frances P r 0 = Inl ZeroDivisionError"
  by (simp add: calcular_cuota_frances_def py_div_def py_pow_int_def)

text \<open>
  Against C8 as stated. For a negative \<^verbatim>\<open>n_periodos\<close> nothing fails: the function has no guard and returns
  a number, here \<open>-100\<close> both with a zero rate and with a rate of \<open>1\<close>.
\<close>

theorem calcular_cuota_frances_periodos_negativos:
  "(-1 :: int) \<le> 0 \<and> calcular_cuota_frances 100 0 (-1) = Inr (-100) \<and>
   calcular_cuota_frances 100 1 (-1) = Inr (-100)"
  by (simp add: calcular_cuota_frances_def py_div_def py_pow_int_def power_int_def)

section \<open>Anticipated and due rates\<close>

text \<open>
  C6. For a rate \<open>r\<close> in \<open>(0, 0.99)\<close> the conversion \<open>r / (1 + r)\<close> followed by
  \<open>r / (1 - r)\<close> returns \<open>r\<close>, with no error on the way. In the code the first formula is
  \<^verbatim>\<open>convertir_anticipada_a_vencida\<close> of \<^verbatim>\<open>calculos.py\<close>; the second is the body of
  \<^verbatim>\<open>TasaInteres.anticipada_a_vencida\<close> of \<^verbatim>\<open>tasas.py\<close>, whose own inverse in that class,
  \<^verbatim>\<open>TasaInteres.vencida_a_anticipada\<close>, undoes it as well. In exact arithmetic both
  round trips are equalities.
\<close>

theorem anticipada_vencida_ida_y_vuelta:
  assumes "0 < r" and "r < 99 / 100"
  shows "bind_res (convertir_anticipada_a_vencida r) TasaInteres_anticipada_a_vencida = Inr r \<and>
         bind_res (TasaInteres_anticipada_a_vencida r) TasaInteres_vencida_a_anticipada = Inr r"
  using assms
  by (simp add: convertir_anticipada_a_vencida_def TasaInteres_anticipada_a_vencida_def
        TasaInteres_vencida_a_anticipada_def py_div_def field_simps)

theorem anticipada_vencida_ida_y_vuelta_witness:
  "(0 :: real) < 1 / 2 \<and> (1 / 2 :: real) < 99 / 100 \<and>
   bind_res (convertir_anticipada_a_vencida (1 / 2)) TasaInteres_anticipada_a_vencida = Inr (1 / 2) \<and>
   bind_res (TasaInteres_anticipada_a_vencida (1 / 2)) TasaInteres_vencida_a_anticipada = Inr (1 / 2)"
  using anticipada_vencida_ida_y_vuelta [of "1 / 2"] by simp

section \<open>Termination and the safety ceiling of the replays\<close>

lemma bucle_reducir_cuota_length:
  "bucle_reducir_cuota r n d m saldo cuota fecha p = Inr rows \<Longrightarrow>
   int (length rows) \<le> max 0 (n * 2 + 1 - p)"
proof (induction p arbitrary: saldo cuota fecha rows rule: periodo_induct [where N = "n * 2"])
  case (paso p)
  show ?case
  proof (cases "1 / 100 < saldo \<and> p \<le> n * 2")
    case False
    with paso.prems show ?thesis by (simp add: bucle_reducir_cuota_stop)
  next
    case True
    from True have pn: "p \<le> n * 2" by simp
    from paso.prems True obtain c' where
      eq: "(if saldo_abono r d saldo cuota p \<le> 1 / 100
           then Inr [fila_abono r d m saldo cuota fecha p]
           else bind_res
                  (bucle_reducir_cuota r n d m (saldo_abono r d saldo cuota p) c'
                     (fecha + py_int (m * 30)) (p + 1))
                  (\<lambda>rows. Inr (fila_abono r d m saldo cuota fecha p # rows))) = Inr rows"
      by (simp only: bucle_reducir_cuota_step bind_res_Inr_iff) blast
    show ?thesis
    proof (cases "saldo_abono r d saldo cuota p \<le> 1 / 100")
      case True
      with eq have "rows = [fila_abono r d m saldo cuota fecha p]"
        by (simp only: if_True sum.inject)
      with pn show ?thesis by simp
    next
      case False
      with eq obtain rest where
        rest: "bucle_reducir_cuota r n d m (saldo_abono r d saldo cuota p) c'
                 (fecha + py_int (m * 30)) (p + 1) = Inr rest"
        and rows: "rows = fila_abono r d m saldo cuota fecha p # rest"
        by (simp only: if_False bind_res_Inr_iff sum.inject) blast
      from paso.IH [OF pn rest] pn rows show ?thesis by simp
    qed
  qed
qed

lemma bucle_reducir_plazo_length:
  "int (length (bucle_reducir_plazo r n d m saldo cuota fecha p)) \<le> max 0 (n * 2 + 1 - p)"
proof (induction p arbitrary: saldo cuota fecha rule: periodo_induct [where N = "n * 2"])
  case (paso p)
  show ?case
  proof (cases "1 / 100 < saldo \<and> p \<le> n * 2")
    case False
    then show ?thesis by (simp add: bucle_reducir_plazo_stop)
  next
    case True
    then have pn: "p \<le> n * 2" by simp
    from True have step: "bucle_reducir_plazo r n d m saldo cuota fecha p =
         (if saldo_abono r d saldo cuota p \<le> 1 / 100 then [fila_abono r d m saldo cuota fecha p]
          else fila_abono r d m saldo cuota fecha p #
               bucle_reducir_plazo r n d m (saldo_abono r d saldo cuota p) cuota
                 (fecha + py_int (m * 30)) (p + 1))"
      by (simp only: bucle_reducir_plazo_step)
    from paso.IH [OF pn, of "saldo_abono r d saldo cuota p" cuota "fecha + py_int (m * 30)"] pn
    show ?thesis by (simp only: step) (simp split: if_splits)
  qed
qed

text \<open>
  C9. Both replays are total functions: their loops are defined by well-founded recursion
  on the distance of \<open>periodo\<close> to the ceiling \<open>2 * n_periodos_inicial\<close>, so they return
  (a table or an exception) on every input. A returned table has at most
  \<open>2 * n_periodos_inicial\<close> rows (none when that number is negative).
\<close>

theorem abonos_limite_de_seguridad:
  "(\<forall>rows. aplicar_abonos_reducir_cuota saldo_inicial tasa_periodo n_periodos_inicial abonos
             fecha_inicio frecuencia_pago = Inr rows \<longrightarrow>
           int (length rows) \<le> max 0 (2 * n_periodos_inicial)) \<and>
   (\<forall>rows. aplicar_abonos_reducir_plazo saldo_inicial tasa_periodo n_periodos_inicial abonos
             fecha_inicio frecuencia_pago = Inr rows \<longrightarrow>
           int (length rows) \<le> max 0 (2 * n_periodos_inicial))"
proof (intro conjI allI impI)
  fix rows
  assume "aplicar_abonos_reducir_cuota saldo_inicial tasa_periodo n_periodos_inicial abonos
             fecha_inicio frecuencia_pago = Inr rows"
  then obtain cuota m where
    "bucle_reducir_cuota tasa_periodo n_periodos_inicial (abonos_dict abonos) m
       saldo_inicial cuota fecha_inicio 1 = Inr rows"
    unfolding aplicar_abonos_reducir_cuota_def bind_res_Inr_iff by blast
  from bucle_reducir_cuota_length [OF this]
  show "int (length rows) \<le> max 0 (2 * n_periodos_inicial)" by simp
next
  fix rows
  assume "aplicar_abonos_reducir_plazo saldo_inicial tasa_periodo n_periodos_inicial abonos
             fecha_inicio frecuencia_pago = Inr rows"
  then obtain cuota m where
    "rows = bucle_reducir_plazo tasa_periodo n_periodos_inicial (abonos_dict abonos) m
       saldo_inicial cuota fecha_inicio 1"
    unfolding aplicar_abonos_reducir_plazo_def bind_res_Inr_iff by blast
  with bucle_reducir_plazo_length [of tasa_periodo n_periodos_inicial "abonos_dict abonos" m
       saldo_inicial cuota fecha_inicio 1]
  show "int (length rows) \<le> max 0 (2 * n_periodos_inicial)" by simp
qed

theorem abonos_limite_de_seguridad_witness:
  "aplicar_abonos_reducir_cuota 300 1 2 [\<lparr>abono_periodo = 1, abono_monto = 1\<rparr>] 0 ''mensual'' =
     Inr [\<lparr>Periodo = 1, Fecha = 30, Cuota = 400, Interes = 300, Abono_Capital = 100,
            Abono_Extra = 1, Saldo = 199\<rparr>,
          \<lparr>Periodo = 2, Fecha = 60, Cuota = 398, Interes = 199, Abono_Capital = 199,
            Abono_Extra = 0, Saldo = 0\<rparr>] \<and>
   aplicar_abonos_reducir_plazo 300 1 2 [\<lparr>abono_periodo = 1, abono_monto = 1\<rparr>] 0 ''mensual'' =
     Inr [\<lparr>Periodo = 1, Fecha = 30, Cuota = 400, Interes = 300, Abono_Capital = 100,
            Abono_Extra = 1, Saldo = 199\<rparr>,
          \<lparr>Periodo = 2, Fecha = 60, Cuota = 400, Interes = 199, Abono_Capital = 199,
            Abono_Extra = 0, Saldo = 0\<rparr>] \<and>
   int (length [1 :: nat, 2]) \<le> max 0 (2 * 2)"
proof -
  have c: "aplicar_abonos_reducir_cuota 300 1 2 [\<lparr>abono_periodo = 1, abono_monto = 1\<rparr>] 0 ''mensual'' =
     Inr [\<lparr>Periodo = 1, Fecha = 30, Cuota = 400, Interes = 300, Abono_Capital = 100,
            Abono_Extra = 1, Saldo = 199\<rparr>,
          \<lparr>Periodo = 2, Fecha = 60, Cuota = 398, Interes = 199, Abono_Capital = 199,
            Abono_Extra = 0, Saldo = 0\<rparr>]"
    by (simp add: evalua)
  have p: "aplicar_abonos_reducir_plazo 300 1 2 [\<lparr>abono_periodo = 1, abono_monto = 1\<rparr>] 0 ''mensual'' =
     Inr [\<lparr>Periodo = 1, Fecha = 30, Cuota = 400, Interes = 300, Abono_Capital = 100,
            Abono_Extra = 1, Saldo = 199\<rparr>,
          \<lparr>Periodo = 2, Fecha = 60, Cuota = 400, Interes = 199, Abono_Capital = 199,
            Abono_Extra = 0, Saldo = 0\<rparr>]"
    by (simp add: evalua)
  from abonos_limite_de_seguridad [of 300 1 2 "[\<lparr>abono_periodo = 1, abono_monto = 1\<rparr>]" 0 "''mensual''"]
    c p
  show ?thesis by simp
qed

section \<open>Extraordinary payments after the last row\<close>

lemma saldo_abono_cong: "get_abono d' p = get_abono d p \<Longrightarrow> saldo_abono r d' saldo cuota p = saldo_abono r d saldo cuota p"
  by (simp add: saldo_abono_def)

lemma fila_abono_cong: "get_abono d' p = get_abono d p \<Longrightarrow> fila_abono r d' m saldo cuota fecha p = fila_abono r d m saldo cuota fecha p"
  by (simp add: fila_abono_def saldo_abono_def)

lemma cuota_abono_cong: "get_abono d' p = get_abono d p \<Longrightarrow> cuota_abono r n d' saldo cuota p = cuota_abono r n d saldo cuota p"
  by (simp add: cuota_abono_def saldo_abono_def)

lemma bucle_reducir_plazo_dict:
  assumes "\<forall>k. p \<le> k \<and> k < p + int (length (bucle_reducir_plazo r n d m saldo cuota fecha p)) \<longrightarrow>
             get_abono d' k = get_abono d k"
  shows "bucle_reducir_plazo r n d' m saldo cuota fecha p = bucle_reducir_plazo r n d m saldo cuota fecha p"
  using assms
proof (induction p arbitrary: saldo cuota fecha rule: periodo_induct [where N = "n * 2"])
  case (paso p)
  show ?case
  proof (cases "1 / 100 < saldo \<and> p \<le> n * 2")
    case False
    then show ?thesis by (simp add: bucle_reducir_plazo_stop)
  next
    case True
    then have pn: "p \<le> n * 2" and s: "1 / 100 < saldo" by simp_all
    note step = bucle_reducir_plazo_step [OF s pn]
    have len: "0 < length (bucle_reducir_plazo r n d m saldo cuota fecha p)"
      by (subst step) simp
    with paso.prems have g: "get_abono d' p = get_abono d p" by simp
    show ?thesis
    proof (cases "saldo_abono r d saldo cuota p \<le> 1 / 100")
      case True
      then show ?thesis
        by (simp only: step
              saldo_abono_cong [OF g] fila_abono_cong [OF g] if_True)
    next
      case False
      have "\<forall>k. p + 1 \<le> k \<and> k < p + 1 + int (length (bucle_reducir_plazo r n d m
                (saldo_abono r d saldo cuota p) cuota (fecha + py_int (m * 30)) (p + 1))) \<longrightarrow>
             get_abono d' k = get_abono d k"
      proof (intro allI impI)
        fix k
        assume k: "p + 1 \<le> k \<and> k < p + 1 + int (length (bucle_reducir_plazo r n d m
                (saldo_abono r d saldo cuota p) cuota (fecha + py_int (m * 30)) (p + 1)))"
        have "length (bucle_reducir_plazo r n d m saldo cuota fecha p) =
              Suc (length (bucle_reducir_plazo r n d m
                (saldo_abono r d saldo cuota p) cuota (fecha + py_int (m * 30)) (p + 1)))"
          using False by (subst step) (simp only: if_False list.size length_Cons)
        with k have "p \<le> k \<and> k < p + int (length (bucle_reducir_plazo r n d m saldo cuota fecha p))"
          by simp
        with paso.prems show "get_abono d' k = get_abono d k" by blast
      qed
      from paso.IH [OF pn this] False show ?thesis
        by (simp only: step
              saldo_abono_cong [OF g] fila_abono_cong [OF g] if_False)
    qed
  qed
qed


lemma bucle_reducir_cuota_dict:
  assumes "bucle_reducir_cuota r n d m saldo cuota fecha p = Inr rows"
    and "\<forall>k. p \<le> k \<and> k < p + int (length rows) \<longrightarrow> get_abono d' k = get_abono d k"
  shows "bucle_reducir_cuota r n d' m saldo cuota fecha p = Inr rows"
  using assms
proof (induction p arbitrary: saldo cuota fecha rows rule: periodo_induct [where N = "n * 2"])
  case (paso p)
  show ?case
  proof (cases "1 / 100 < saldo \<and> p \<le> n * 2")
    case False
    with paso.prems(1) show ?thesis by (simp add: bucle_reducir_cuota_stop)
  next
    case True
    then have pn: "p \<le> n * 2" and s: "1 / 100 < saldo" by simp_all
    note step = bucle_reducir_cuota_step [OF s pn]
    from paso.prems(1) obtain c' where
      c': "cuota_abono r n d saldo cuota p = Inr c'" and
      eq: "(if saldo_abono r d saldo cuota p \<le> 1 / 100
           then Inr [fila_abono r d m saldo cuota fecha p]
           else bind_res
                  (bucle_reducir_cuota r n d m (saldo_abono r d saldo cuota p) c'
                     (fecha + py_int (m * 30)) (p + 1))
                  (\<lambda>rows. Inr (fila_abono r d m saldo cuota fecha p # rows))) = Inr rows"
      by (simp only: step bind_res_Inr_iff) blast
    show ?thesis
    proof (cases "saldo_abono r d saldo cuota p \<le> 1 / 100")
      case True
      with eq have rows: "rows = [fila_abono r d m saldo cuota fecha p]"
        by (simp only: if_True sum.inject)
      with paso.prems(2) have g: "get_abono d' p = get_abono d p" by simp
      from True c' rows show ?thesis
        by (simp only: step saldo_abono_cong [OF g]
              fila_abono_cong [OF g] cuota_abono_cong [OF g] if_True bind_res_Inr)
    next
      case False
      with eq obtain rest where
        rest: "bucle_reducir_cuota r n d m (saldo_abono r d saldo cuota p) c'
                 (fecha + py_int (m * 30)) (p + 1) = Inr rest"
        and rows: "rows = fila_abono r d m saldo cuota fecha p # rest"
        by (simp only: if_False bind_res_Inr_iff sum.inject) blast
      from rows paso.prems(2) have g: "get_abono d' p = get_abono d p" by simp
      from rows paso.prems(2)
      have "\<forall>k. p + 1 \<le> k \<and> k < p + 1 + int (length rest) \<longrightarrow> get_abono d' k = get_abono d k"
        by simp
      from paso.IH [OF pn rest this] False c' rows show ?thesis
        by (simp only: step saldo_abono_cong [OF g]
              fila_abono_cong [OF g] cuota_abono_cong [OF g] if_False bind_res_Inr)
    qed
  qed
qed

lemma bucle_reducir_plazo_periodos:
  "row \<in> set (bucle_reducir_plazo r n d m saldo cuota fecha p) \<Longrightarrow>
   p \<le> Periodo row \<and> Periodo row < p + int (length (bucle_reducir_plazo r n d m saldo cuota fecha p))"
proof (induction p arbitrary: saldo cuota fecha rule: periodo_induct [where N = "n * 2"])
  case (paso p)
  show ?case
  proof (cases "1 / 100 < saldo \<and> p \<le> n * 2")
    case False
    with paso.prems show ?thesis by (simp add: bucle_reducir_plazo_stop)
  next
    case True
    then have pn: "p \<le> n * 2" and s: "1 / 100 < saldo" by simp_all
    note step = bucle_reducir_plazo_step [OF s pn]
    show ?thesis
    proof (cases "saldo_abono r d saldo cuota p \<le> 1 / 100")
      case True
      with paso.prems show ?thesis by (simp add: step fila_abono_def)
    next
      case False
      from paso.prems False
      have "row = fila_abono r d m saldo cuota fecha p \<or>
            row \<in> set (bucle_reducir_plazo r n d m (saldo_abono r d saldo cuota p) cuota
                         (fecha + py_int (m * 30)) (p + 1))"
        by (simp add: step)
      then show ?thesis
      proof
        assume "row = fila_abono r d m saldo cuota fecha p"
        with False show ?thesis by (simp add: step fila_abono_def)
      next
        assume "row \<in> set (bucle_reducir_plazo r n d m (saldo_abono r d saldo cuota p) cuota
                         (fecha + py_int (m * 30)) (p + 1))"
        from paso.IH [OF pn this] False show ?thesis by (simp add: step)
      qed
    qed
  qed
qed

lemma bucle_reducir_cuota_periodos:
  "bucle_reducir_cuota r n d m saldo cuota fecha p = Inr rows \<Longrightarrow> row \<in> set rows \<Longrightarrow>
   p \<le> Periodo row \<and> Periodo row < p + int (length rows)"
proof (induction p arbitrary: saldo cuota fecha rows rule: periodo_induct [where N = "n * 2"])
  case (paso p)
  show ?case
  proof (cases "1 / 100 < saldo \<and> p \<le> n * 2")
    case False
    with paso.prems show ?thesis by (simp add: bucle_reducir_cuota_stop)
  next
    case True
    then have pn: "p \<le> n * 2" and s: "1 / 100 < saldo" by simp_all
    note step = bucle_reducir_cuota_step [OF s pn]
    from paso.prems(1) obtain c' where
      eq: "(if saldo_abono r d saldo cuota p \<le> 1 / 100
           then Inr [fila_abono r d m saldo cuota fecha p]
           else bind_res
                  (bucle_reducir_cuota r n d m (saldo_abono r d saldo cuota p) c'
                     (fecha + py_int (m * 30)) (p + 1))
                  (\<lambda>rows. Inr (fila_abono r d m saldo cuota fecha p # rows))) = Inr rows"
      by (simp only: step bind_res_Inr_iff) blast
    show ?thesis
    proof (cases "saldo_abono r d saldo cuota p \<le> 1 / 100")
      case True
      with eq have rows: "rows = [fila_abono r d m saldo cuota fecha p]"
        by (simp only: if_True sum.inject)
      with paso.prems(2) show ?thesis by (simp add: fila_abono_def)
    next
      case False
      with eq obtain rest where
        rest: "bucle_reducir_cuota r n d m (saldo_abono r d saldo cuota p) c'
                 (fecha + py_int (m * 30)) (p + 1) = Inr rest"
        and rows: "rows = fila_abono r d m saldo cuota fecha p # rest"
        by (simp only: if_False bind_res_Inr_iff sum.inject) blast
      from paso.prems(2) rows
      have "row = fila_abono r d m saldo cuota fecha p \<or> row \<in> set rest" by simp
      then show ?thesis
      proof
        assume "row = fila_abono r d m saldo cuota fecha p"
        with rows show ?thesis by (simp add: fila_abono_def)
      next
        assume "row \<in> set rest"
        from paso.IH [OF pn rest this] rows show ?thesis by simp
      qed
    qed
  qed
qed

lemma foldl_abonos_agree:
  "d1 k = d2 k \<Longrightarrow>
   foldl (\<lambda>d a. d(abono_periodo a \<mapsto> abono_monto a)) d1 ys k =
   foldl (\<lambda>d a. d(abono_periodo a \<mapsto> abono_monto a)) d2 ys k"
proof (induction ys arbitrary: d1 d2)
  case Nil
  then show ?case by simp
next
  case (Cons y ys)
  from Cons.prems
  have "(d1(abono_periodo y \<mapsto> abono_monto y)) k = (d2(abono_periodo y \<mapsto> abono_monto y)) k"
    by simp
  then show ?case unfolding foldl_Cons by (rule Cons.IH)
qed

lemma abonos_dict_sin:
  "k \<noteq> abono_periodo a \<Longrightarrow> abonos_dict (xs @ a # ys) k = abonos_dict (xs @ ys) k"
  unfolding abonos_dict_def foldl_append foldl_Cons
  by (rule foldl_abonos_agree) simp

lemma get_abono_sin:
  "k \<noteq> abono_periodo a \<Longrightarrow>
   get_abono (abonos_dict (xs @ a # ys)) k = get_abono (abonos_dict (xs @ ys)) k"
  by (simp add: get_abono_def abonos_dict_sin)

lemma aplicar_abonos_reducir_cuota_Inr_iff:
  "aplicar_abonos_reducir_cuota s r n ab f fp = Inr rows \<longleftrightarrow>
   (\<exists>c m. calcular_cuota_frances s r n = Inr c \<and> lookup_key FRECUENCIAS fp = Inr m \<and>
          bucle_reducir_cuota r n (abonos_dict ab) m s c f 1 = Inr rows)"
  by (simp add: aplicar_abonos_reducir_cuota_def bind_res_Inr_iff)

lemma aplicar_abonos_reducir_plazo_Inr_iff:
  "aplicar_abonos_reducir_plazo s r n ab f fp = Inr rows \<longleftrightarrow>
   (\<exists>c m. calcular_cuota_frances s r n = Inr c \<and> lookup_key FRECUENCIAS fp = Inr m \<and>
          bucle_reducir_plazo r n (abonos_dict ab) m s c f 1 = rows)"
  by (simp add: aplicar_abonos_reducir_plazo_def bind_res_Inr_iff)

lemma aplicar_abonos_reducir_cuota_dict:
  assumes "aplicar_abonos_reducir_cuota s r n ab f fp = Inr rows"
    and "\<forall>k. 1 \<le> k \<and> k < 1 + int (length rows) \<longrightarrow>
           get_abono (abonos_dict ab') k = get_abono (abonos_dict ab) k"
  shows "aplicar_abonos_reducir_cuota s r n ab' f fp = Inr rows"
proof -
  from assms(1) obtain c m where c: "calcular_cuota_frances s r n = Inr c"
    and m: "lookup_key FRECUENCIAS fp = Inr m"
    and b: "bucle_reducir_cuota r n (abonos_dict ab) m s c f 1 = Inr rows"
    unfolding aplicar_abonos_reducir_cuota_Inr_iff by blast
  from bucle_reducir_cuota_dict [OF b assms(2)] c m show ?thesis
    unfolding aplicar_abonos_reducir_cuota_Inr_iff by blast
qed

lemma aplicar_abonos_reducir_plazo_dict:
  assumes "aplicar_abonos_reducir_plazo s r n ab f fp = Inr rows"
    and "\<forall>k. 1 \<le> k \<and> k < 1 + int (length rows) \<longrightarrow>
           get_abono (abonos_dict ab') k = get_abono (abonos_dict ab) k"
  shows "aplicar_abonos_reducir_plazo s r n ab' f fp = Inr rows"
proof -
  from assms(1) obtain c m where c: "calcular_cuota_frances s r n = Inr c"
    and m: "lookup_key FRECUENCIAS fp = Inr m"
    and b: "bucle_reducir_plazo r n (abonos_dict ab) m s c f 1 = rows"
    unfolding aplicar_abonos_reducir_plazo_Inr_iff by blast
  from assms(2) b
  have "\<forall>k. 1 \<le> k \<and> k < 1 + int (length (bucle_reducir_plazo r n (abonos_dict ab) m s c f 1)) \<longrightarrow>
           get_abono (abonos_dict ab') k = get_abono (abonos_dict ab) k"
    by simp
  from bucle_reducir_plazo_dict [OF this] b c m show ?thesis
    unfolding aplicar_abonos_reducir_plazo_Inr_iff by blast
qed

text \<open>
  C10 (as amended). In both replays an extraordinary payment whose target period lies
  strictly after the last emitted row is ignored: the replay returns the table \<open>rows\<close>
  with the payment \<open>a\<close> in its input list exactly when it returns \<open>rows\<close> without it,
  and no row of that table has the payment's period.
\<close>

theorem abono_posterior_ignorado:
  assumes "int (length rows) < abono_periodo a"
  shows "(aplicar_abonos_reducir_cuota s r n (xs @ a # ys) f fp = Inr rows \<longleftrightarrow>
          aplicar_abonos_reducir_cuota s r n (xs @ ys) f fp = Inr rows) \<and>
         (aplicar_abonos_reducir_plazo s r n (xs @ a # ys) f fp = Inr rows \<longleftrightarrow>
          aplicar_abonos_reducir_plazo s r n (xs @ ys) f fp = Inr rows) \<and>
         (aplicar_abonos_reducir_cuota s r n (xs @ ys) f fp = Inr rows \<or>
          aplicar_abonos_reducir_plazo s r n (xs @ ys) f fp = Inr rows \<longrightarrow>
          (\<forall>row \<in> set rows. Periodo row \<noteq> abono_periodo a))"
proof (intro conjI iffI impI ballI)
  have agree: "\<forall>k. 1 \<le> k \<and> k < 1 + int (length rows) \<longrightarrow>
      get_abono (abonos_dict (xs @ a # ys)) k = get_abono (abonos_dict (xs @ ys)) k"
    using assms by (simp add: get_abono_sin)
  then have agree': "\<forall>k. 1 \<le> k \<and> k < 1 + int (length rows) \<longrightarrow>
      get_abono (abonos_dict (xs @ ys)) k = get_abono (abonos_dict (xs @ a # ys)) k"
    by simp
  {
    assume "aplicar_abonos_reducir_cuota s r n (xs @ a # ys) f fp = Inr rows"
    then show "aplicar_abonos_reducir_cuota s r n (xs @ ys) f fp = Inr rows"
      using agree' by (rule aplicar_abonos_reducir_cuota_dict)
  next
    assume "aplicar_abonos_reducir_cuota s r n (xs @ ys) f fp = Inr rows"
    then show "aplicar_abonos_reducir_cuota s r n (xs @ a # ys) f fp = Inr rows"
      using agree by (rule aplicar_abonos_reducir_cuota_dict)
  next
    assume "aplicar_abonos_reducir_plazo s r n (xs @ a # ys) f fp = Inr rows"
    then show "aplicar_abonos_reducir_plazo s r n (xs @ ys) f fp = Inr rows"
      using agree' by (rule aplicar_abonos_reducir_plazo_dict)
  next
    assume "aplicar_abonos_reducir_plazo s r n (xs @ ys) f fp = Inr rows"
    then show "aplicar_abonos_reducir_plazo s r n (xs @ a # ys) f fp = Inr rows"
      using agree by (rule aplicar_abonos_reducir_plazo_dict)
  next
    fix row
    assume row: "row \<in> set rows"
    assume "aplicar_abonos_reducir_cuota s r n (xs @ ys) f fp = Inr rows \<or>
            aplicar_abonos_reducir_plazo s r n (xs @ ys) f fp = Inr rows"
    then have "Periodo row < 1 + int (length rows)"
    proof
      assume "aplicar_abonos_reducir_cuota s r n (xs @ ys) f fp = Inr rows"
      then obtain c m where "bucle_reducir_cuota r n (abonos_dict (xs @ ys)) m s c f 1 = Inr rows"
        unfolding aplicar_abonos_reducir_cuota_Inr_iff by blast
      from bucle_reducir_cuota_periodos [OF this row] show ?thesis by simp
    next
      assume "aplicar_abonos_reducir_plazo s r n (xs @ ys) f fp = Inr rows"
      then obtain c m where b: "bucle_reducir_plazo r n (abonos_dict (xs @ ys)) m s c f 1 = rows"
        unfolding aplicar_abonos_reducir_plazo_Inr_iff by blast
      with row have "row \<in> set (bucle_reducir_plazo r n (abonos_dict (xs @ ys)) m s c f 1)"
        by simp
      from bucle_reducir_plazo_periodos [OF this] b show ?thesis by simp
    qed
    with assms show "Periodo row \<noteq> abono_periodo a" by simp
  }
qed

theorem abono_posterior_ignorado_witness:
  "int (length [\<lparr>Periodo = 1, Fecha = 738916, Cuota = 400, Interes = 300,
                  Abono_Capital = - 200, Abono_Extra = 500, Saldo = 0\<rparr>])
     < abono_periodo \<lparr>abono_periodo = 2, abono_monto = 50\<rparr> \<and>
   aplicar_abonos_reducir_cuota 300 1 2
     [\<lparr>abono_periodo = 1, abono_monto = 500\<rparr>, \<lparr>abono_periodo = 2, abono_monto = 50\<rparr>]
     738886 ''mensual'' =
     Inr [\<lparr>Periodo = 1, Fecha = 738916, Cuota = 400, Interes = 300,
            Abono_Capital = - 200, Abono_Extra = 500, Saldo = 0\<rparr>] \<and>
   aplicar_abonos_reducir_plazo 300 1 2
     [\<lparr>abono_periodo = 1, abono_monto = 500\<rparr>, \<lparr>abono_periodo = 2, abono_monto = 50\<rparr>]
     738886 ''mensual'' =
     Inr [\<lparr>Periodo = 1, Fecha = 738916, Cuota = 400, Interes = 300,
            Abono_Capital = - 200, Abono_Extra = 500, Saldo = 0\<rparr>]"
proof -
  let ?R = "\<lparr>Periodo = 1, Fecha = 738916, Cuota = 400, Interes = 300,
              Abono_Capital = - 200, Abono_Extra = 500, Saldo = 0\<rparr>"
  let ?a = "\<lparr>abono_periodo = 2, abono_monto = 50\<rparr>"
  let ?x = "\<lparr>abono_periodo = 1, abono_monto = 500\<rparr>"
  have h: "int (length [?R]) < abono_periodo ?a" by simp
  have c: "aplicar_abonos_reducir_cuota 300 1 2 ([?x] @ []) 738886 ''mensual'' = Inr [?R]"
    by (simp add: evalua)
  have p: "aplicar_abonos_reducir_plazo 300 1 2 ([?x] @ []) 738886 ''mensual'' = Inr [?R]"
    by (simp add: evalua)
  from abono_posterior_ignorado [OF h, of 300 1 2 "[?x]" "[]" 738886 "''mensual''"] c p
  have "aplicar_abonos_reducir_cuota 300 1 2 ([?x] @ ?a # []) 738886 ''mensual'' = Inr [?R]"
    and "aplicar_abonos_reducir_plazo 300 1 2 ([?x] @ ?a # []) 738886 ''mensual'' = Inr [?R]"
    by blast+
  with h show ?thesis by simp
qed

text \<open>
  Against C10 as stated. A payment aimed at the very period in which the balance reaches
  the tolerance is not ignored. Without payments the credit of 300 at a period rate of 1 over 2 periods closes
  in period 2; a payment of 50 aimed at period 2 is applied there: it shows in the column
  \<^verbatim>\<open>Abono_Extra\<close> and changes \<^verbatim>\<open>Abono_Capital\<close>, in both replays.
\<close>

theorem abono_en_ultimo_periodo_aplicado:
  "aplicar_abonos_reducir_plazo 300 1 2 [] 738886 ''mensual'' =
     Inr [\<lparr>Periodo = 1, Fecha = 738916, Cuota = 400, Interes = 300, Abono_Capital = 100,
            Abono_Extra = 0, Saldo = 200\<rparr>,
          \<lparr>Periodo = 2, Fecha = 738946, Cuota = 400, Interes = 200, Abono_Capital = 200,
            Abono_Extra = 0, Saldo = 0\<rparr>] \<and>
   aplicar_abonos_reducir_plazo 300 1 2 [\<lparr>abono_periodo = 2, abono_monto = 50\<rparr>]
       738886 ''mensual'' =
     Inr [\<lparr>Periodo = 1, Fecha = 738916, Cuota = 400, Interes = 300, Abono_Capital = 100,
            Abono_Extra = 0, Saldo = 200\<rparr>,
          \<lparr>Periodo = 2, Fecha = 738946, Cuota = 400, Interes = 200, Abono_Capital = 150,
            Abono_Extra = 50, Saldo = 0\<rparr>] \<and>
   aplicar_abonos_reducir_cuota 300 1 2 [] 738886 ''mensual'' =
     Inr [\<lparr>Periodo = 1, Fecha = 738916, Cuota = 400, Interes = 300, Abono_Capital = 100,
            Abono_Extra = 0, Saldo = 200\<rparr>,
          \<lparr>Periodo = 2, Fecha = 738946, Cuota = 400, Interes = 200, Abono_Capital = 200,
            Abono_Extra = 0, Saldo = 0\<rparr>] \<and>
   aplicar_abonos_reducir_cuota 300 1 2 [\<lparr>abono_periodo = 2, abono_monto = 50\<rparr>]
       738886 ''mensual'' =
     Inr [\<lparr>Periodo = 1, Fecha = 738916, Cuota = 400, Interes = 300, Abono_Capital = 100,
            Abono_Extra = 0, Saldo = 200\<rparr>,
          \<lparr>Periodo = 2, Fecha = 738946, Cuota = 400, Interes = 200, Abono_Capital = 150,
            Abono_Extra = 50, Saldo = 0\<rparr>]"
  by (simp add: evalua)

section \<open>Overshoot of the balance below zero\<close>

lemma redondear_0 [simp]: "redondear 0 = 0"
  by (simp add: redondear_def redondear_decimal_def)


lemma redondear_pos: "0 \<le> x \<Longrightarrow> redondear x = real_of_int \<lfloor>x * 100 + 1 / 2\<rfloor> / 100"
  by (simp add: redondear_def redondear_decimal_def power_int_def)















section \<open>The annuity factor and the fixed installment\<close>

lemma anualidad_nonneg: "0 \<le> r \<Longrightarrow> 0 \<le> anualidad r k"
  by (induction k) simp_all


lemma anualidad_Suc_mult: "0 \<le> r \<Longrightarrow> anualidad r (Suc k) * (1 + r) = 1 + anualidad r k"
  by simp








section \<open>The baseline schedule under valid parameters\<close>

lemma nat_resto: "p \<le> n \<Longrightarrow> nat (n - p + 1) = Suc (nat (n - p))"
  by simp





















section \<open>The replays against the nominal term\<close>

lemma saldo_abono_nonneg: "0 \<le> saldo_abono r d s c p"
  by (simp add: saldo_abono_def)


lemma saldo_abono_anualidad:
  assumes "0 \<le> r" "0 \<le> c" "0 \<le> get_abono d p" "s \<le> c * anualidad r (Suc k)"
  shows "saldo_abono r d s c p \<le> c * anualidad r k"
proof -
  define a1 where "a1 = anualidad r (Suc k)"
  define a0 where "a0 = anualidad r k"
  have m: "a1 * (1 + r) = 1 + a0" unfolding a1_def a0_def by (rule anualidad_Suc_mult [OF assms(1)])
  from assms(4) have "s \<le> c * a1" unfolding a1_def .
  with assms(1) have "s * (1 + r) \<le> c * a1 * (1 + r)" by (intro mult_right_mono) simp_all
  also have "\<dots> = c * (1 + a0)" using m by (simp add: mult.assoc)
  finally have "s * (1 + r) - c \<le> c * a0" by (simp add: algebra_simps)
  with assms(3) have s1: "s - (c - s * r) - get_abono d p \<le> c * a0" by (simp add: algebra_simps)
  from assms(1,2) have "0 \<le> c * a0" unfolding a0_def by (simp add: anualidad_nonneg)
  with s1 show ?thesis unfolding saldo_abono_def a0_def by simp
qed



text \<open>The invariant of the replays: the balance is covered by the remaining installments.\<close>

lemma invariante_periodo:
  assumes "0 \<le> r" "0 < c" "1 / 100 < s" "s \<le> c * anualidad r (nat (n - p + 1))"
  shows "p \<le> n"
proof (rule ccontr)
  assume "\<not> p \<le> n"
  then have "nat (n - p + 1) = 0" by simp
  with assms(4) have "s \<le> 0" by simp
  with assms(3) show False by simp
qed


lemma bucle_reducir_plazo_plazo_nominal:
  assumes "0 \<le> r" "\<forall>k. 0 \<le> get_abono d k" "0 < c"
  shows "s \<le> c * anualidad r (nat (n - p + 1)) \<Longrightarrow>
         length (bucle_reducir_plazo r n d m s c f p) \<le> nat (n - p + 1)"
proof (induction p arbitrary: s f rule: periodo_induct [where N = "n * 2"])
  case (paso p)
  show ?case
  proof (cases "1 / 100 < s \<and> p \<le> n * 2")
    case False
    then show ?thesis by (simp add: bucle_reducir_plazo_stop)
  next
    case True
    then have s: "1 / 100 < s" and p2: "p \<le> n * 2" by simp_all
    from invariante_periodo [OF assms(1,3) s paso.prems] have pn: "p \<le> n" .
    note step = bucle_reducir_plazo_step [OF s p2]
    from paso.prems have "s \<le> c * anualidad r (Suc (nat (n - p)))"
      unfolding nat_resto [OF pn] .
    from saldo_abono_anualidad [OF assms(1) _ _ this, of d p] assms(2,3)
    have s': "saldo_abono r d s c p \<le> c * anualidad r (nat (n - p))" by simp
    show ?thesis
    proof (cases "saldo_abono r d s c p \<le> 1 / 100")
      case True
      then show ?thesis unfolding step using pn by simp
    next
      case False
      from s' have "saldo_abono r d s c p \<le> c * anualidad r (nat (n - (p + 1) + 1))" by simp
      from paso.IH [OF p2 this, of "f + py_int (m * 30)"] pn
      have "Suc (length (bucle_reducir_plazo r n d m (saldo_abono r d s c p) c
                    (f + py_int (m * 30)) (p + 1))) \<le> nat (n - p + 1)" by simp
      with False show ?thesis unfolding step by simp
    qed
  qed
qed








section \<open>Interest saved by extraordinary payments\<close>









section \<open>The concrete scenario\<close>

lemma raiz_12_potencia: "((28 / 25 :: real) powr (1 / 12)) ^ 12 = 28 / 25"
proof -
  have pos: "0 < (28 / 25 :: real) powr (1 / 12)" by simp
  have "((28 / 25 :: real) powr (1 / 12)) ^ 12 = ((28 / 25) powr (1 / 12)) powr (real 12)"
    by (rule powr_realpow [OF pos, symmetric])
  also have "\<dots> = (28 / 25) powr (1 / 12 * real 12)" by (rule powr_powr)
  also have "1 / 12 * real 12 = (1 :: real)" by simp
  also have "(28 / 25 :: real) powr 1 = 28 / 25" by simp
  finally show ?thesis .
qed

lemma raiz_12_cotas:
  "10094887929 / 10000000000 < (28 / 25 :: real) powr (1 / 12)"
  "(28 / 25 :: real) powr (1 / 12) < 10094887930 / 10000000000"
proof -
  define R :: real where "R = (28 / 25) powr (1 / 12)"
  have R0: "0 \<le> R" unfolding R_def by simp
  have R12: "R ^ 12 = 28 / 25" unfolding R_def by (rule raiz_12_potencia)
  have "(10094887929 / 10000000000 :: real) ^ 12 < 28 / 25" by (simp add: power_divide)
  then have "(10094887929 / 10000000000 :: real) ^ 12 < R ^ 12" unfolding R12 .
  then show "10094887929 / 10000000000 < (28 / 25 :: real) powr (1 / 12)"
    unfolding R_def [symmetric] using R0 by (rule power_less_imp_less_base)
  have "(28 / 25 :: real) < (10094887930 / 10000000000) ^ 12" by (simp add: power_divide)
  then have "R ^ 12 < (10094887930 / 10000000000 :: real) ^ 12" unfolding R12 .
  then show "(28 / 25 :: real) powr (1 / 12) < 10094887930 / 10000000000"
    unfolding R_def [symmetric] by (rule power_less_imp_less_base) simp
qed

lemma redondear_eq:
  assumes "0 \<le> x" "real_of_int k - 1 / 2 \<le> x * 100" "x * 100 < real_of_int k + 1 / 2"
  shows "redondear x = real_of_int k / 100"
proof -
  from assms(2,3) have "\<lfloor>x * 100 + 1 / 2\<rfloor> = k" by (intro floor_unique) simp_all
  then show ?thesis unfolding redondear_pos [OF assms(1)] by simp
qed

lemma caso_concreto_tasa:
  "tasa_periodo_de 12 ''nominal'' ''vencida'' ''mensual'' ''anual'' = Inr ((28 / 25) powr (1 / 12) - 1)"
  by (simp add: evalua)

lemma caso_concreto_cuota:
  "calcular_cuota_frances 100000 ((28 / 25) powr (1 / 12) - 1) 12 =
   Inr (2800000 / 3 * ((28 / 25) powr (1 / 12) - 1))"
proof -
  define R :: real where "R = (28 / 25) powr (1 / 12)"
  from raiz_12_cotas(1) have R1: "R - 1 \<noteq> 0" unfolding R_def by simp
  have R12: "R ^ 12 = 28 / 25" unfolding R_def by (rule raiz_12_potencia)
  have "calcular_cuota_frances 100000 (R - 1) 12 = Inr (100000 * ((R - 1) * R ^ 12) / (R ^ 12 - 1))"
    using R1 by (simp add: calcular_cuota_frances_def py_pow_int_def py_div_def power_int_def R12)
  also have "100000 * ((R - 1) * R ^ 12) / (R ^ 12 - 1) = 2800000 / 3 * (R - 1)"
    unfolding R12 by simp
  finally show ?thesis unfolding R_def .
qed

lemma take_1_bucle_tabla:
  "p \<le> n \<Longrightarrow> take 1 (bucle_tabla c r n m s f p) = [fila_tabla c r n m s f p]"
  by (simp add: bucle_tabla_step)

lemma caso_concreto_primera_fila:
  "map_sum id (take 1)
     (generar_tabla_amortizacion 100000 12 ''nominal'' ''vencida'' 12 ''mensual'' 738886 ''anual'') =
   Inr [\<lparr>Periodo = 1, Fecha = 738916, Cuota = 885621 / 100, Interes = 94888 / 100,
          Abono_Capital = 790733 / 100, Abono_Extra = 0, Saldo = 9209267 / 100\<rparr>]"
proof -
  define r :: real where "r = (28 / 25) powr (1 / 12) - 1"
  define c :: real where "c = 2800000 / 3 * r"
  from raiz_12_cotas have lo: "94887929 / 10000000000 < r" and hi: "r < 94887930 / 10000000000"
    unfolding r_def by simp_all
  have t: "tasa_periodo_de 12 ''nominal'' ''vencida'' ''mensual'' ''anual'' = Inr r"
    unfolding r_def by (rule caso_concreto_tasa)
  have q: "calcular_cuota_frances 100000 r 12 = Inr c"
    unfolding r_def c_def by (rule caso_concreto_cuota)
  have l: "lookup_key FRECUENCIAS ''mensual'' = Inr 1"
    by (simp add: lookup_key_def FRECUENCIAS_def)
  have d: "py_div (real_of_int 12) 1 = Inr 12" by (simp add: py_div_def)
  have n: "py_int 12 = 12" by (simp add: py_int_def)
  have g: "generar_tabla_amortizacion 100000 12 ''nominal'' ''vencida'' 12 ''mensual'' 738886 ''anual'' =
        Inr (bucle_tabla c r 12 1 100000 738886 1)"
    unfolding generar_tabla_amortizacion_def t bind_res_Inr l d Let_def n q ..
  have cuota: "redondear c = real_of_int 885621 / 100"
    unfolding c_def using lo hi by (intro redondear_eq) simp_all
  have interes: "redondear (100000 * r) = real_of_int 94888 / 100"
    using lo hi by (intro redondear_eq) simp_all
  have capital: "redondear (c - 100000 * r) = real_of_int 790733 / 100"
    unfolding c_def using lo hi by (intro redondear_eq) simp_all
  have s1: "saldo_tabla c r 12 100000 1 = 100000 - (c - 100000 * r)"
    by (simp add: saldo_tabla_def)
  have s0: "0 \<le> 100000 - (c - 100000 * r)" unfolding c_def using hi by simp
  have saldo: "redondear (100000 - (c - 100000 * r)) = real_of_int 9209267 / 100"
    unfolding c_def using lo hi by (intro redondear_eq) simp_all
  have m0: "max 0 (100000 - (c - 100000 * r)) = 100000 - (c - 100000 * r)"
    using s0 by (rule max_absorb2)
  have f: "fila_tabla c r 12 1 100000 738886 1 =
        \<lparr>Periodo = 1, Fecha = 738916, Cuota = 885621 / 100, Interes = 94888 / 100,
          Abono_Capital = 790733 / 100, Abono_Extra = 0, Saldo = 9209267 / 100\<rparr>"
    unfolding fila_tabla_def s1 m0 cuota interes capital saldo
    by (simp add: py_int_def)
  have "take 1 (bucle_tabla c r 12 1 100000 738886 1) = [fila_tabla c r 12 1 100000 738886 1]"
    by (rule take_1_bucle_tabla) simp
  then show ?thesis unfolding g f by simp
qed

text \<open>
  C1 (as amended). For a principal of 100000 at 12 percent nominal, due, over 12 months
  with monthly payments from 2024-01-01 (day 738886) and the quotation frequency
  \<^verbatim>\<open>anual\<close>, the compounding count looked up for \<^verbatim>\<open>anual\<close> is 1, so the effective annual
  rate is \<open>(1 + 0.12/1)^1 - 1 = 0.12\<close>, the monthly rate is \<open>1.12^(1/12) - 1\<close>, and the
  first row carries the installment 8856.21.
\<close>

theorem caso_concreto_cuota_8856_21:
  "m_de_frecuencia ''anual'' = 1 \<and>
   convertir_nominal_a_efectiva (12 / 100) (m_de_frecuencia ''anual'') = Inr (12 / 100) \<and>
   tasa_periodo_de 12 ''nominal'' ''vencida'' ''mensual'' ''anual'' =
     Inr ((28 / 25) powr (1 / 12) - 1) \<and>
   map_sum id (take 1)
     (generar_tabla_amortizacion 100000 12 ''nominal'' ''vencida'' 12 ''mensual'' 738886 ''anual'') =
   Inr [\<lparr>Periodo = 1, Fecha = 738916, Cuota = 885621 / 100, Interes = 94888 / 100,
          Abono_Capital = 790733 / 100, Abono_Extra = 0, Saldo = 9209267 / 100\<rparr>]"
proof -
  have "m_de_frecuencia ''anual'' = 1" by (simp add: m_de_frecuencia_def m_map_def)
  moreover have "convertir_nominal_a_efectiva (12 / 100) (m_de_frecuencia ''anual'') = Inr (12 / 100)"
    by (simp add: evalua)
  ultimately show ?thesis
    using caso_concreto_tasa caso_concreto_primera_fila by (intro conjI)
qed

text \<open>
  Against C1 as stated. The installment of that row is not within 0.01 of 8884.88, the value that twelve
  compoundings per year would give.
\<close>

theorem caso_concreto_cuota_no_8884_88:
  "map_sum id (map Cuota \<circ> take 1)
     (generar_tabla_amortizacion 100000 12 ''nominal'' ''vencida'' 12 ''mensual'' 738886 ''anual'') =
   Inr [885621 / 100] \<and>
   \<not> \<bar>(885621 / 100 :: real) - 888488 / 100\<bar> \<le> 1 / 100"
proof -
  have "map_sum id (map Cuota \<circ> take 1)
     (generar_tabla_amortizacion 100000 12 ''nominal'' ''vencida'' 12 ''mensual'' 738886 ''anual'') =
     map_sum id (map Cuota) (map_sum id (take 1)
     (generar_tabla_amortizacion 100000 12 ''nominal'' ''vencida'' 12 ''mensual'' 738886 ''anual''))"
    by (simp add: sum.map_comp)
  also have "\<dots> = Inr [885621 / 100]" unfolding caso_concreto_primera_fila by simp
  finally show ?thesis by simp
qed

end
